theory Spec2Isabelle
  imports Main
begin

section \<open>Strings and values exchanged with the transport\<close>

text \<open>
  JavaScript strings are modelled as \<^typ>\<open>string\<close> holding the UTF-8 bytes of the
  text. The only test the code makes on a string is \<^verbatim>\<open>phoneNumber.includes('@')\<close>;
  the byte 0x40 occurs in UTF-8 text exactly where the character @ occurs, so the
  test is membership of \<^term>\<open>CHR ''@''\<close> in the byte list.

  The socket \<^verbatim>\<open>sock\<close> comes from the Baileys library, which is not part of the
  repository. It is a parameter of the model: a record of the two methods that
  \<^verbatim>\<open>sendMessage\<close> calls, each a function on an arbitrary transport state
  \<^typ>\<open>'s\<close>, so that a reply may depend on everything the transport has seen. What is
  assumed of the library is the shape of its replies:
  \<^item> an awaited call either resolves to a value or rejects with a value, which may be
    any JavaScript value; of the value caught the code reads the \<^verbatim>\<open>message\<close>
    property only;
  \<^item> a resolved \<^verbatim>\<open>onWhatsApp(phoneNumber)\<close> is an array, possibly empty, of objects
    with the property \<^verbatim>\<open>exists\<close>, as the code destructures it;
  \<^item> a resolved \<^verbatim>\<open>sock.sendMessage(jid, { text: message })\<close> is a message object, of
    which the code reads \<^verbatim>\<open>key.id\<close> and \<^verbatim>\<open>messageTimestamp\<close>; the second
    argument is modelled by the text alone.

  Console output is not modelled in \<^verbatim>\<open>sendMessage\<close>.
\<close>

text \<open>
  A JavaScript value as far as the code can tell it apart: a string, \<^verbatim>\<open>undefined\<close>, or
  any other value, named by a number.
\<close>

datatype js_value = Text string | Undefined | Opaque nat

text \<open>
  A value that an awaited call rejects with. \<open>Thrown v\<close> is a value other than
  \<^verbatim>\<open>null\<close> and \<^verbatim>\<open>undefined\<close> whose property \<^verbatim>\<open>message\<close> reads as \<open>v\<close>: an
  \<^verbatim>\<open>Error\<close> object with the message \<open>msg\<close> is \<open>Thrown (Text msg)\<close>, a value without
  that property is \<open>Thrown Undefined\<close>. \<open>Nullish\<close> is \<^verbatim>\<open>null\<close> or
  \<^verbatim>\<open>undefined\<close>, of which no property can be read: the attempt raises the
  \<^verbatim>\<open>TypeError\<close> of the language.
\<close>

datatype thrown = Thrown js_value | Nullish

datatype exception = TypeError

datatype 'a completion = Resolves 'a | Rejects thrown

record wa_result =
  exists :: bool

text \<open>
  A message object of the library, with the properties that the code reads:
  \<^verbatim>\<open>key.remoteJid\<close>, \<^verbatim>\<open>key.fromMe\<close>, \<^verbatim>\<open>key.id\<close>,
  \<^verbatim>\<open>message?.conversation\<close>, \<^verbatim>\<open>message?.extendedTextMessage?.text\<close>,
  \<^verbatim>\<open>pushName\<close> and \<^verbatim>\<open>messageTimestamp\<close>. An optional property is an
  \<^typ>\<open>'a option\<close>, \<^term>\<open>None\<close> when it is undefined. The properties \<^verbatim>\<open>id\<close>,
  \<^verbatim>\<open>text\<close> and \<^verbatim>\<open>message\<close> are the fields \<open>id_key\<close>, \<open>text_of\<close> and
  \<open>message_of\<close>, their own names being taken.
\<close>

record message_key =
  remoteJid :: "string option"
  fromMe :: bool
  id_key :: string

record extended_text =
  text_of :: "string option"

record message_content =
  conversation :: "string option"
  extendedTextMessage :: "extended_text option"

record wa_message =
  key :: message_key
  message_of :: "message_content option"
  pushName :: "string option"
  messageTimestamp :: int

record 's sock =
  onWhatsApp :: "string \<Rightarrow> 's \<Rightarrow> wa_result list completion \<times> 's"
  sock_sendMessage :: "string \<Rightarrow> string \<Rightarrow> 's \<Rightarrow> wa_message completion \<times> 's"

text \<open>
  The calls made on the socket are recorded, in order, beside the transport state.
\<close>

datatype call = OnWhatsApp string | SendMessage string string

record 's world =
  transport :: 's
  calls :: "call list"

definition call_onWhatsApp ::
  "'s sock \<Rightarrow> string \<Rightarrow> 's world \<Rightarrow> wa_result list completion \<times> 's world" where
  "call_onWhatsApp sock phoneNumber w =
     (case onWhatsApp sock phoneNumber (transport w) of
        (r, s') \<Rightarrow> (r, \<lparr>transport = s', calls = calls w @ [OnWhatsApp phoneNumber]\<rparr>))"

definition call_sendMessage ::
  "'s sock \<Rightarrow> string \<Rightarrow> string \<Rightarrow> 's world \<Rightarrow> wa_message completion \<times> 's world" where
  "call_sendMessage sock jid body w =
     (case sock_sendMessage sock jid body (transport w) of
        (r, s') \<Rightarrow> (r, \<lparr>transport = s', calls = calls w @ [SendMessage jid body]\<rparr>))"

section \<open>The outcome record\<close>

text \<open>
  The object literals returned by \<^verbatim>\<open>sendMessage\<close>. A property that the literal does
  not have is \<^term>\<open>None\<close>. The property \<^verbatim>\<open>error\<close> is a string in the literal of the
  \<^verbatim>\<open>try\<close> block and whatever \<^verbatim>\<open>error.message\<close> reads as in the literal of the
  \<^verbatim>\<open>catch\<close> clause: \<open>Some Undefined\<close> is the property written with the value
  \<^verbatim>\<open>undefined\<close>.
\<close>

record SendOutcome =
  success :: bool
  messageId :: "string option"
  timestamp :: "int option"
  error :: "js_value option"

section \<open>sendMessage (index.js)\<close>

text \<open>
  The error text of index.js for an unregistered number, as UTF-8 bytes: the Russian
  sentence "Nomer ne zaregistrirovan v WhatsApp" in Cyrillic letters.
\<close>

definition not_registered :: string where
  "not_registered =
     [CHR 0xD0, CHR 0x9D, CHR 0xD0, CHR 0xBE, CHR 0xD0, CHR 0xBC, CHR 0xD0, CHR 0xB5,
      CHR 0xD1, CHR 0x80, CHR 0x20, CHR 0xD0, CHR 0xBD, CHR 0xD0, CHR 0xB5, CHR 0x20,
      CHR 0xD0, CHR 0xB7, CHR 0xD0, CHR 0xB0, CHR 0xD1, CHR 0x80, CHR 0xD0, CHR 0xB5,
      CHR 0xD0, CHR 0xB3, CHR 0xD0, CHR 0xB8, CHR 0xD1, CHR 0x81, CHR 0xD1, CHR 0x82,
      CHR 0xD1, CHR 0x80, CHR 0xD0, CHR 0xB8, CHR 0xD1, CHR 0x80, CHR 0xD0, CHR 0xBE,
      CHR 0xD0, CHR 0xB2, CHR 0xD0, CHR 0xB0, CHR 0xD0, CHR 0xBD, CHR 0x20, CHR 0xD0,
      CHR 0xB2, CHR 0x20, CHR 0x57, CHR 0x68, CHR 0x61, CHR 0x74, CHR 0x73, CHR 0x41,
      CHR 0x70, CHR 0x70]"

text \<open>
  \<^verbatim>\<open>const [result] = ...\<close>: the first element of the array, undefined when the
  array is empty.
\<close>

definition first_result :: "wa_result list \<Rightarrow> wa_result option" where
  "first_result results = (case results of [] \<Rightarrow> None | r # _ \<Rightarrow> Some r)"

text \<open>\<^verbatim>\<open>!result || !result.exists\<close>\<close>

definition absent :: "wa_result option \<Rightarrow> bool" where
  "absent result = (case result of None \<Rightarrow> True | Some r \<Rightarrow> \<not> exists r)"

text \<open>
  The body of the \<^verbatim>\<open>try\<close> block: \<^term>\<open>Inl\<close> is an error raised inside it (a rejected
  \<^verbatim>\<open>await\<close>), \<^term>\<open>Inr\<close> a \<^verbatim>\<open>return\<close>. The first line is
  \<^verbatim>\<open>const jid = phoneNumber.includes('@') ? phoneNumber : `${phoneNumber}@s.whatsapp.net`\<close>.
\<close>

definition sendMessage_try ::
  "'s sock \<Rightarrow> string \<Rightarrow> string \<Rightarrow> 's world \<Rightarrow> (thrown + SendOutcome) \<times> 's world" where
  "sendMessage_try sock phoneNumber message w =
     (let jid = (if CHR ''@'' \<in> set phoneNumber then phoneNumber
                 else phoneNumber @ ''@s.whatsapp.net'') in
      case call_onWhatsApp sock phoneNumber w of
        (Rejects e, w1) \<Rightarrow> (Inl e, w1)
      | (Resolves results, w1) \<Rightarrow>
          (let result = first_result results in
           if absent result then
             (Inr \<lparr>success = False, messageId = None, timestamp = None,
                   error = Some (Text not_registered)\<rparr>, w1)
           else
             (case call_sendMessage sock jid message w1 of
                (Rejects e, w2) \<Rightarrow> (Inl e, w2)
              | (Resolves sentMessage, w2) \<Rightarrow>
                  (Inr \<lparr>success = True, messageId = Some (id_key (key sentMessage)),
                        timestamp = Some (messageTimestamp sentMessage),
                        error = None\<rparr>, w2))))"

text \<open>
  The whole function, with the \<^verbatim>\<open>catch\<close> clause:
  \<^verbatim>\<open>catch (error) { console.error(..., error.message); return { success: false, error: error.message } }\<close>.
  Reading \<^verbatim>\<open>error.message\<close> of \<^verbatim>\<open>null\<close> or \<^verbatim>\<open>undefined\<close> raises a
  \<^verbatim>\<open>TypeError\<close> inside the clause, which nothing catches: the function throws it
  (\<^term>\<open>Inl\<close>). For any other caught value the clause returns the failure outcome with
  what the property reads as.
\<close>

definition sendMessage ::
  "'s sock \<Rightarrow> string \<Rightarrow> string \<Rightarrow> 's world \<Rightarrow> (exception + SendOutcome) \<times> 's world" where
  "sendMessage sock phoneNumber message w =
     (case sendMessage_try sock phoneNumber message w of
        (Inl Nullish, w') \<Rightarrow> (Inl TypeError, w')
      | (Inl (Thrown v), w') \<Rightarrow>
          (Inr \<lparr>success = False, messageId = None, timestamp = None, error = Some v\<rparr>, w')
      | (Inr outcome, w') \<Rightarrow> (Inr outcome, w'))"

section \<open>sendMessage (example.js)\<close>

text \<open>
  The copy of the function in example.js differs in the error text only: the Russian
  sentence "Nomer ne zaregistrirovan" in Cyrillic letters, as UTF-8 bytes.
\<close>

definition example_not_registered :: string where
  "example_not_registered =
     [CHR 0xD0, CHR 0x9D, CHR 0xD0, CHR 0xBE, CHR 0xD0, CHR 0xBC, CHR 0xD0, CHR 0xB5,
      CHR 0xD1, CHR 0x80, CHR 0x20, CHR 0xD0, CHR 0xBD, CHR 0xD0, CHR 0xB5, CHR 0x20,
      CHR 0xD0, CHR 0xB7, CHR 0xD0, CHR 0xB0, CHR 0xD1, CHR 0x80, CHR 0xD0, CHR 0xB5,
      CHR 0xD0, CHR 0xB3, CHR 0xD0, CHR 0xB8, CHR 0xD1, CHR 0x81, CHR 0xD1, CHR 0x82,
      CHR 0xD1, CHR 0x80, CHR 0xD0, CHR 0xB8, CHR 0xD1, CHR 0x80, CHR 0xD0, CHR 0xBE,
      CHR 0xD0, CHR 0xB2, CHR 0xD0, CHR 0xB0, CHR 0xD0, CHR 0xBD]"

definition example_sendMessage_try ::
  "'s sock \<Rightarrow> string \<Rightarrow> string \<Rightarrow> 's world \<Rightarrow> (thrown + SendOutcome) \<times> 's world" where
  "example_sendMessage_try sock phoneNumber message w =
     (let jid = (if CHR ''@'' \<in> set phoneNumber then phoneNumber
                 else phoneNumber @ ''@s.whatsapp.net'') in
      case call_onWhatsApp sock phoneNumber w of
        (Rejects e, w1) \<Rightarrow> (Inl e, w1)
      | (Resolves results, w1) \<Rightarrow>
          (let result = first_result results in
           if absent result then
             (Inr \<lparr>success = False, messageId = None, timestamp = None,
                   error = Some (Text example_not_registered)\<rparr>, w1)
           else
             (case call_sendMessage sock jid message w1 of
                (Rejects e, w2) \<Rightarrow> (Inl e, w2)
              | (Resolves sentMessage, w2) \<Rightarrow>
                  (Inr \<lparr>success = True, messageId = Some (id_key (key sentMessage)),
                        timestamp = Some (messageTimestamp sentMessage),
                        error = None\<rparr>, w2))))"

definition example_sendMessage ::
  "'s sock \<Rightarrow> string \<Rightarrow> string \<Rightarrow> 's world \<Rightarrow> (exception + SendOutcome) \<times> 's world" where
  "example_sendMessage sock phoneNumber message w =
     (case example_sendMessage_try sock phoneNumber message w of
        (Inl Nullish, w') \<Rightarrow> (Inl TypeError, w')
      | (Inl (Thrown v), w') \<Rightarrow>
          (Inr \<lparr>success = False, messageId = None, timestamp = None, error = Some v\<rparr>, w')
      | (Inr outcome, w') \<Rightarrow> (Inr outcome, w'))"

section \<open>The connection.update observer\<close>

text \<open>
  The event object: \<^verbatim>\<open>connection\<close>, \<^verbatim>\<open>lastDisconnect\<close> and \<^verbatim>\<open>qr\<close>, each
  possibly undefined. Of \<^verbatim>\<open>lastDisconnect\<close> the code reads
  \<^verbatim>\<open>lastDisconnect?.error?.output?.statusCode\<close>, where any link of the chain may be
  undefined (the fields \<open>disconnect_error\<close>, \<open>output_of\<close> and \<open>statusCode\<close>).
\<close>

record boom_output =
  statusCode :: "int option"

record boom =
  output_of :: "boom_output option"

record last_disconnect =
  disconnect_error :: "boom option"

record connection_update =
  connection :: "string option"
  lastDisconnect :: "last_disconnect option"
  qr :: "string option"

text \<open>
  What the observer does, in order. \<^verbatim>\<open>await delay(3000)\<close> is the effect
  \<open>Delay 3000\<close>: what follows it in the list happens after the delay has elapsed.
  \<open>StartWhatsAppBot\<close> and \<open>ConnectWhatsApp\<close> are the calls of the enclosing function
  (index.js and example.js). Console output is left out, and with it the branch for
  \<^verbatim>\<open>connection === 'open'\<close>, which only prints and is not entered by a close event.
\<close>

datatype effect = QrGenerate string | Delay nat | StartWhatsAppBot | ConnectWhatsApp

text \<open>\<^verbatim>\<open>(lastDisconnect?.error as Boom)?.output?.statusCode\<close>\<close>

definition disconnect_statusCode :: "connection_update \<Rightarrow> int option" where
  "disconnect_statusCode update =
     (case lastDisconnect update of
        None \<Rightarrow> None
      | Some ld \<Rightarrow>
          (case disconnect_error ld of
             None \<Rightarrow> None
           | Some err \<Rightarrow>
               (case output_of err of
                  None \<Rightarrow> None
                | Some out \<Rightarrow> statusCode out)))"

text \<open>
  \<^verbatim>\<open>... !== DisconnectReason.loggedOut\<close>. The constant belongs to the library and is a
  parameter here; an undefined status code is different from it.
\<close>

definition shouldReconnect :: "int \<Rightarrow> connection_update \<Rightarrow> bool" where
  "shouldReconnect loggedOut update = (disconnect_statusCode update \<noteq> Some loggedOut)"

text \<open>
  \<^verbatim>\<open>if (qr) { ... qrcode.generate(qr, { small: true }) ... }\<close>: a string is truthy
  when it is defined and not empty.
\<close>

definition qr_effects :: "connection_update \<Rightarrow> effect list" where
  "qr_effects update =
     (case qr update of None \<Rightarrow> [] | Some q \<Rightarrow> if q = [] then [] else [QrGenerate q])"

text \<open>The observer registered by \<^verbatim>\<open>startWhatsAppBot\<close> in index.js.\<close>

definition on_connection_update :: "int \<Rightarrow> connection_update \<Rightarrow> effect list" where
  "on_connection_update loggedOut update =
     qr_effects update @
     (if connection update = Some ''close'' then
        (if shouldReconnect loggedOut update then [Delay 3000, StartWhatsAppBot] else [])
      else [])"

text \<open>The observer registered by \<^verbatim>\<open>connectWhatsApp\<close> in example.js.\<close>

definition example_on_connection_update :: "int \<Rightarrow> connection_update \<Rightarrow> effect list" where
  "example_on_connection_update loggedOut update =
     qr_effects update @
     (if connection update = Some ''close'' then
        (if shouldReconnect loggedOut update then [Delay 3000, ConnectWhatsApp] else [])
      else [])"

section \<open>The messages.upsert observer (index.js)\<close>

text \<open>\<^verbatim>\<open>a || b\<close> where \<^verbatim>\<open>a\<close> is a string or undefined.\<close>

definition or_else :: "string option \<Rightarrow> string option \<Rightarrow> string option" where
  "or_else a b = (case a of None \<Rightarrow> b | Some s \<Rightarrow> if s = [] then b else a)"

text \<open>\<^verbatim>\<open>a || 'literal'\<close>\<close>

definition or_default :: "string option \<Rightarrow> string \<Rightarrow> string" where
  "or_default a d = (case a of None \<Rightarrow> d | Some s \<Rightarrow> if s = [] then d else s)"

text \<open>
  \<^verbatim>\<open>message.message?.conversation || message.message?.extendedTextMessage?.text || ''\<close>
\<close>

definition messageText :: "wa_message \<Rightarrow> string" where
  "messageText message =
     or_default
       (or_else
          (case message_of message of None \<Rightarrow> None | Some c \<Rightarrow> conversation c)
          (case message_of message of
             None \<Rightarrow> None
           | Some c \<Rightarrow> (case extendedTextMessage c of None \<Rightarrow> None | Some x \<Rightarrow> text_of x)))
       ''''"

text \<open>\<^verbatim>\<open>message.pushName || 'Unknown'\<close>\<close>

definition senderName :: "wa_message \<Rightarrow> string" where
  "senderName message = or_default (pushName message) ''Unknown''"

text \<open>
  The only thing the observer of index.js does with a message is to print it (the
  automatic reply is commented out). The two \<^verbatim>\<open>console.log\<close> calls for one
  message are the record \<open>Received senderName from messageText\<close> of what they print.
\<close>

datatype handled = Received string "string option" string

text \<open>The \<^verbatim>\<open>for\<close> loop over the batch; \<^verbatim>\<open>continue\<close> goes on with the rest.\<close>

fun handle_messages :: "wa_message list \<Rightarrow> handled list" where
  "handle_messages [] = []"
| "handle_messages (message # rest) =
     (if fromMe (key message) then handle_messages rest
      else Received (senderName message) (remoteJid (key message)) (messageText message)
             # handle_messages rest)"

definition on_messages_upsert :: "wa_message list \<Rightarrow> string \<Rightarrow> handled list" where
  "on_messages_upsert messages type =
     (if type \<noteq> ''notify'' then [] else handle_messages messages)"

section \<open>Transports and events used at concrete inputs\<close>

text \<open>
  Sockets whose methods answer in a fixed way, for evaluating the functions. On a
  transport without state: one that finds every address and delivers, one that finds
  the bare address \<^verbatim>\<open>79123456789\<close> only, one that reports every address as not
  existing, one whose calls all reject with an \<^verbatim>\<open>Error\<close>, one whose send rejects
  with an \<^verbatim>\<open>Error\<close>, one whose query rejects with an \<^verbatim>\<open>Error\<close> that carries
  the text of index.js for an unregistered number, and one whose query rejects with
  \<^verbatim>\<open>null\<close>. And one whose state is the list of the arguments that its methods
  have received, in order; it finds every address and delivers.
\<close>

definition sent_ABC123 :: wa_message where
  "sent_ABC123 =
     \<lparr>key = \<lparr>remoteJid = Some ''79123456789@s.whatsapp.net'', fromMe = True,
              id_key = ''ABC123''\<rparr>,
      message_of = Some \<lparr>conversation = Some ''hi'', extendedTextMessage = None\<rparr>,
      pushName = None, messageTimestamp = 1700000000\<rparr>"


definition bare_only_sock :: "unit sock" where
  "bare_only_sock =
     \<lparr>onWhatsApp =
        (\<lambda>p s. (Resolves (if p = ''79123456789'' then [\<lparr>exists = True\<rparr>] else []), s)),
      sock_sendMessage = (\<lambda>j t s. (Resolves sent_ABC123, s))\<rparr>"

definition unregistered_sock :: "unit sock" where
  "unregistered_sock =
     \<lparr>onWhatsApp = (\<lambda>p s. (Resolves [\<lparr>exists = False\<rparr>], s)),
      sock_sendMessage = (\<lambda>j t s. (Resolves sent_ABC123, s))\<rparr>"


definition timing_out_sock :: "unit sock" where
  "timing_out_sock =
     \<lparr>onWhatsApp = (\<lambda>p s. (Resolves [\<lparr>exists = True\<rparr>], s)),
      sock_sendMessage = (\<lambda>j t s. (Rejects (Thrown (Text ''Timed Out'')), s))\<rparr>"


definition null_rejecting_sock :: "unit sock" where
  "null_rejecting_sock =
     \<lparr>onWhatsApp = (\<lambda>p s. (Rejects Nullish, s)),
      sock_sendMessage = (\<lambda>j t s. (Resolves sent_ABC123, s))\<rparr>"

definition recording_sock :: "string list sock" where
  "recording_sock =
     \<lparr>onWhatsApp = (\<lambda>p s. (Resolves [\<lparr>exists = True\<rparr>], s @ [p])),
      sock_sendMessage = (\<lambda>j t s. (Resolves sent_ABC123, s @ [j, t]))\<rparr>"

definition w0 :: "unit world" where
  "w0 = \<lparr>transport = (), calls = []\<rparr>"

definition r0 :: "string list world" where
  "r0 = \<lparr>transport = [], calls = []\<rparr>"

text \<open>
  Close events with the status codes 408 and 401, and two inbound messages with the same
  text, one from a peer and one sent by the account itself.
\<close>

definition closed_with :: "int \<Rightarrow> connection_update" where
  "closed_with code =
     \<lparr>connection = Some ''close'',
      lastDisconnect =
        Some \<lparr>disconnect_error = Some \<lparr>output_of = Some \<lparr>statusCode = Some code\<rparr>\<rparr>\<rparr>,
      qr = None\<rparr>"

definition peer_hello :: wa_message where
  "peer_hello =
     \<lparr>key = \<lparr>remoteJid = Some ''79123456789@s.whatsapp.net'', fromMe = False,
              id_key = ''M1''\<rparr>,
      message_of = Some \<lparr>conversation = Some ''hello'', extendedTextMessage = None\<rparr>,
      pushName = Some ''Ann'', messageTimestamp = 1700000000\<rparr>"

definition own_hello :: wa_message where
  "own_hello =
     \<lparr>key = \<lparr>remoteJid = Some ''79123456789@s.whatsapp.net'', fromMe = True,
              id_key = ''M2''\<rparr>,
      message_of = Some \<lparr>conversation = Some ''hello'', extendedTextMessage = None\<rparr>,
      pushName = Some ''Me'', messageTimestamp = 1700000001\<rparr>"

section \<open>The paths of sendMessage\<close>

text \<open>
  What the function returns and what it leaves behind, on each path through it: the
  transport in the state that its last call produced, and the record of the calls.
\<close>

lemma sendMessage_query_thrown:
  assumes "onWhatsApp sock p (transport w) = (Rejects (Thrown v), s1)"
  shows "sendMessage sock p m w =
           (Inr \<lparr>success = False, messageId = None, timestamp = None,
                  error = Some v\<rparr>,
            \<lparr>transport = s1, calls = calls w @ [OnWhatsApp p]\<rparr>)"
  using assms
  by (simp add: sendMessage_def sendMessage_try_def call_onWhatsApp_def)

lemma sendMessage_query_nullish:
  assumes "onWhatsApp sock p (transport w) = (Rejects Nullish, s1)"
  shows "sendMessage sock p m w =
           (Inl TypeError,
            \<lparr>transport = s1, calls = calls w @ [OnWhatsApp p]\<rparr>)"
  using assms
  by (simp add: sendMessage_def sendMessage_try_def call_onWhatsApp_def)

lemma sendMessage_absent:
  assumes "onWhatsApp sock p (transport w) = (Resolves rs, s1)"
    and "absent (first_result rs)"
  shows "sendMessage sock p m w =
           (Inr \<lparr>success = False, messageId = None, timestamp = None,
                  error = Some (Text not_registered)\<rparr>,
            \<lparr>transport = s1, calls = calls w @ [OnWhatsApp p]\<rparr>)"
  using assms
  by (simp add: sendMessage_def sendMessage_try_def call_onWhatsApp_def)

lemma sendMessage_send_thrown:
  assumes "onWhatsApp sock p (transport w) = (Resolves rs, s1)"
    and "\<not> absent (first_result rs)"
    and "sock_sendMessage sock (if CHR ''@'' \<in> set p then p else p @ ''@s.whatsapp.net'') m s1
           = (Rejects (Thrown v), s2)"
  shows "sendMessage sock p m w =
           (Inr \<lparr>success = False, messageId = None, timestamp = None,
                  error = Some v\<rparr>,
            \<lparr>transport = s2,
             calls = calls w @ [OnWhatsApp p,
               SendMessage (if CHR ''@'' \<in> set p then p else p @ ''@s.whatsapp.net'') m]\<rparr>)"
  using assms
  by (simp add: sendMessage_def sendMessage_try_def call_onWhatsApp_def
      call_sendMessage_def)

lemma sendMessage_send_nullish:
  assumes "onWhatsApp sock p (transport w) = (Resolves rs, s1)"
    and "\<not> absent (first_result rs)"
    and "sock_sendMessage sock (if CHR ''@'' \<in> set p then p else p @ ''@s.whatsapp.net'') m s1
           = (Rejects Nullish, s2)"
  shows "sendMessage sock p m w =
           (Inl TypeError,
            \<lparr>transport = s2,
             calls = calls w @ [OnWhatsApp p,
               SendMessage (if CHR ''@'' \<in> set p then p else p @ ''@s.whatsapp.net'') m]\<rparr>)"
  using assms
  by (simp add: sendMessage_def sendMessage_try_def call_onWhatsApp_def
      call_sendMessage_def)

lemma sendMessage_sent:
  assumes "onWhatsApp sock p (transport w) = (Resolves rs, s1)"
    and "\<not> absent (first_result rs)"
    and "sock_sendMessage sock (if CHR ''@'' \<in> set p then p else p @ ''@s.whatsapp.net'') m s1
           = (Resolves sm, s2)"
  shows "sendMessage sock p m w =
           (Inr \<lparr>success = True, messageId = Some (id_key (key sm)),
                  timestamp = Some (messageTimestamp sm), error = None\<rparr>,
            \<lparr>transport = s2,
             calls = calls w @ [OnWhatsApp p,
               SendMessage (if CHR ''@'' \<in> set p then p else p @ ''@s.whatsapp.net'') m]\<rparr>)"
  using assms
  by (simp add: sendMessage_def sendMessage_try_def call_onWhatsApp_def
      call_sendMessage_def)

lemma example_sendMessage_query_thrown:
  assumes "onWhatsApp sock p (transport w) = (Rejects (Thrown v), s1)"
  shows "example_sendMessage sock p m w =
           (Inr \<lparr>success = False, messageId = None, timestamp = None,
                  error = Some v\<rparr>,
            \<lparr>transport = s1, calls = calls w @ [OnWhatsApp p]\<rparr>)"
  using assms
  by (simp add: example_sendMessage_def example_sendMessage_try_def call_onWhatsApp_def)

lemma example_sendMessage_query_nullish:
  assumes "onWhatsApp sock p (transport w) = (Rejects Nullish, s1)"
  shows "example_sendMessage sock p m w =
           (Inl TypeError,
            \<lparr>transport = s1, calls = calls w @ [OnWhatsApp p]\<rparr>)"
  using assms
  by (simp add: example_sendMessage_def example_sendMessage_try_def call_onWhatsApp_def)

lemma example_sendMessage_absent:
  assumes "onWhatsApp sock p (transport w) = (Resolves rs, s1)"
    and "absent (first_result rs)"
  shows "example_sendMessage sock p m w =
           (Inr \<lparr>success = False, messageId = None, timestamp = None,
                  error = Some (Text example_not_registered)\<rparr>,
            \<lparr>transport = s1, calls = calls w @ [OnWhatsApp p]\<rparr>)"
  using assms
  by (simp add: example_sendMessage_def example_sendMessage_try_def call_onWhatsApp_def)

lemma example_sendMessage_send_thrown:
  assumes "onWhatsApp sock p (transport w) = (Resolves rs, s1)"
    and "\<not> absent (first_result rs)"
    and "sock_sendMessage sock (if CHR ''@'' \<in> set p then p else p @ ''@s.whatsapp.net'') m s1
           = (Rejects (Thrown v), s2)"
  shows "example_sendMessage sock p m w =
           (Inr \<lparr>success = False, messageId = None, timestamp = None,
                  error = Some v\<rparr>,
            \<lparr>transport = s2,
             calls = calls w @ [OnWhatsApp p,
               SendMessage (if CHR ''@'' \<in> set p then p else p @ ''@s.whatsapp.net'') m]\<rparr>)"
  using assms
  by (simp add: example_sendMessage_def example_sendMessage_try_def call_onWhatsApp_def
      call_sendMessage_def)

lemma example_sendMessage_send_nullish:
  assumes "onWhatsApp sock p (transport w) = (Resolves rs, s1)"
    and "\<not> absent (first_result rs)"
    and "sock_sendMessage sock (if CHR ''@'' \<in> set p then p else p @ ''@s.whatsapp.net'') m s1
           = (Rejects Nullish, s2)"
  shows "example_sendMessage sock p m w =
           (Inl TypeError,
            \<lparr>transport = s2,
             calls = calls w @ [OnWhatsApp p,
               SendMessage (if CHR ''@'' \<in> set p then p else p @ ''@s.whatsapp.net'') m]\<rparr>)"
  using assms
  by (simp add: example_sendMessage_def example_sendMessage_try_def call_onWhatsApp_def
      call_sendMessage_def)

lemma example_sendMessage_sent:
  assumes "onWhatsApp sock p (transport w) = (Resolves rs, s1)"
    and "\<not> absent (first_result rs)"
    and "sock_sendMessage sock (if CHR ''@'' \<in> set p then p else p @ ''@s.whatsapp.net'') m s1
           = (Resolves sm, s2)"
  shows "example_sendMessage sock p m w =
           (Inr \<lparr>success = True, messageId = Some (id_key (key sm)),
                  timestamp = Some (messageTimestamp sm), error = None\<rparr>,
            \<lparr>transport = s2,
             calls = calls w @ [OnWhatsApp p,
               SendMessage (if CHR ''@'' \<in> set p then p else p @ ''@s.whatsapp.net'') m]\<rparr>)"
  using assms
  by (simp add: example_sendMessage_def example_sendMessage_try_def call_onWhatsApp_def
      call_sendMessage_def)

text \<open>Every run is on one of the six paths.\<close>

lemma sendMessage_paths:
  obtains (query_thrown) v s1 where "onWhatsApp sock p (transport w) = (Rejects (Thrown v), s1)"
  | (query_nullish) s1 where "onWhatsApp sock p (transport w) = (Rejects Nullish, s1)"
  | (absent) rs s1 where "onWhatsApp sock p (transport w) = (Resolves rs, s1)"
      and "absent (first_result rs)"
  | (send_thrown) rs s1 v s2 where "onWhatsApp sock p (transport w) = (Resolves rs, s1)"
      and "\<not> absent (first_result rs)"
      and "sock_sendMessage sock (if CHR ''@'' \<in> set p then p else p @ ''@s.whatsapp.net'') m s1
             = (Rejects (Thrown v), s2)"
  | (send_nullish) rs s1 s2 where "onWhatsApp sock p (transport w) = (Resolves rs, s1)"
      and "\<not> absent (first_result rs)"
      and "sock_sendMessage sock (if CHR ''@'' \<in> set p then p else p @ ''@s.whatsapp.net'') m s1
             = (Rejects Nullish, s2)"
  | (sent) rs s1 sm s2 where "onWhatsApp sock p (transport w) = (Resolves rs, s1)"
      and "\<not> absent (first_result rs)"
      and "sock_sendMessage sock (if CHR ''@'' \<in> set p then p else p @ ''@s.whatsapp.net'') m s1
             = (Resolves sm, s2)"
proof (cases "onWhatsApp sock p (transport w)")
  case (Pair r1 s1)
  show thesis
  proof (cases r1)
    case (Rejects x)
    with Pair show thesis
      by (cases x) (auto intro: query_thrown query_nullish)
  next
    case (Resolves rs)
    show thesis
    proof (cases "absent (first_result rs)")
      case True
      with Pair Resolves show thesis by (auto intro: absent)
    next
      case False
      obtain r2 s2 where second:
        "sock_sendMessage sock (if CHR ''@'' \<in> set p then p else p @ ''@s.whatsapp.net'') m s1
           = (r2, s2)"
        by (cases "sock_sendMessage sock
              (if CHR ''@'' \<in> set p then p else p @ ''@s.whatsapp.net'') m s1")
      show thesis
      proof (cases r2)
        case (Resolves sm)
        with Pair \<open>r1 = Resolves rs\<close> False second show thesis by (auto intro: sent)
      next
        case (Rejects x)
        with Pair \<open>r1 = Resolves rs\<close> False second show thesis
          by (cases x) (auto intro: send_thrown send_nullish)
      qed
    qed
  qed
qed

text \<open>The query finds the destination: the first entry of its reply exists.\<close>

lemma absent_Nil: "absent (first_result [])"
  by (simp add: first_result_def absent_def)

lemma absent_Cons: "absent (first_result (r # rest)) \<longleftrightarrow> \<not> exists r"
  by (simp add: first_result_def absent_def)

lemma not_absent_iff:
  "\<not> absent (first_result rs) \<longleftrightarrow> (\<exists>r rest. rs = r # rest \<and> exists r)"
  by (cases rs) (simp_all add: first_result_def absent_def)

section \<open>C1: bare and fully-qualified destinations\<close>

lemma forms_index:
  assumes "CHR ''@'' \<notin> set p"
  shows
    "let q = p @ ''@s.whatsapp.net'';
       query = onWhatsApp sock p (transport w);
       query' = onWhatsApp sock q (transport w);
       send = sock_sendMessage sock q m (snd query);
       send' = sock_sendMessage sock q m (snd query');
       result = sendMessage sock p m w;
       result' = sendMessage sock q m w
   in (snd result = \<lparr>transport = snd query, calls = calls w @ [OnWhatsApp p]\<rparr> \<or>
       snd result = \<lparr>transport = snd send,
                     calls = calls w @ [OnWhatsApp p, SendMessage q m]\<rparr>) \<and>
      (snd result' = \<lparr>transport = snd query', calls = calls w @ [OnWhatsApp q]\<rparr> \<or>
       snd result' = \<lparr>transport = snd send',
                      calls = calls w @ [OnWhatsApp q, SendMessage q m]\<rparr>) \<and>
      (\<forall>r rest. fst query = Resolves (r # rest) \<and> exists r \<longrightarrow>
         snd result = \<lparr>transport = snd send,
                       calls = calls w @ [OnWhatsApp p, SendMessage q m]\<rparr>) \<and>
      (\<forall>r rest. fst query' = Resolves (r # rest) \<and> exists r \<longrightarrow>
         snd result' = \<lparr>transport = snd send',
                        calls = calls w @ [OnWhatsApp q, SendMessage q m]\<rparr>) \<and>
      (fst query = fst query' \<and>
       ((\<exists>r rest. fst query = Resolves (r # rest) \<and> exists r) \<longrightarrow> fst send = fst send')
       \<longrightarrow> fst result = fst result')"
proof -
  let ?q = "p @ ''@s.whatsapp.net''"
  have jp: "(if CHR ''@'' \<in> set p then p else p @ ''@s.whatsapp.net'') = ?q"
    using assms by simp
  have jq: "(if CHR ''@'' \<in> set ?q then ?q else ?q @ ''@s.whatsapp.net'') = ?q"
    by simp
  obtain r1 s1 where q1: "onWhatsApp sock p (transport w) = (r1, s1)"
    by (cases "onWhatsApp sock p (transport w)")
  obtain r1' s1' where q2: "onWhatsApp sock ?q (transport w) = (r1', s1')"
    by (cases "onWhatsApp sock ?q (transport w)")
  obtain r2 s2 where s1: "sock_sendMessage sock ?q m s1 = (r2, s2)"
    by (cases "sock_sendMessage sock ?q m s1")
  obtain r2' s2' where s2: "sock_sendMessage sock ?q m s1' = (r2', s2')"
    by (cases "sock_sendMessage sock ?q m s1'")
  have left:
    "(snd (sendMessage sock p m w) = \<lparr>transport = s1, calls = calls w @ [OnWhatsApp p]\<rparr> \<or>
      snd (sendMessage sock p m w)
        = \<lparr>transport = s2, calls = calls w @ [OnWhatsApp p, SendMessage ?q m]\<rparr>) \<and>
     (\<forall>r rest. r1 = Resolves (r # rest) \<and> exists r \<longrightarrow>
        snd (sendMessage sock p m w)
          = \<lparr>transport = s2, calls = calls w @ [OnWhatsApp p, SendMessage ?q m]\<rparr>)"
    using q1 s1 jp
    by (cases rule: sendMessage_paths [where sock = sock and p = p and w = w and m = m])
      (auto simp add: sendMessage_query_thrown sendMessage_query_nullish
        sendMessage_absent sendMessage_send_thrown sendMessage_send_nullish
        sendMessage_sent absent_Cons)
  have right:
    "(snd (sendMessage sock ?q m w) = \<lparr>transport = s1', calls = calls w @ [OnWhatsApp ?q]\<rparr> \<or>
      snd (sendMessage sock ?q m w)
        = \<lparr>transport = s2', calls = calls w @ [OnWhatsApp ?q, SendMessage ?q m]\<rparr>) \<and>
     (\<forall>r rest. r1' = Resolves (r # rest) \<and> exists r \<longrightarrow>
        snd (sendMessage sock ?q m w)
          = \<lparr>transport = s2', calls = calls w @ [OnWhatsApp ?q, SendMessage ?q m]\<rparr>)"
    using q2 s2 jq
    by (cases rule: sendMessage_paths [where sock = sock and p = ?q and w = w and m = m])
      (auto simp add: sendMessage_query_thrown sendMessage_query_nullish
        sendMessage_absent sendMessage_send_thrown sendMessage_send_nullish
        sendMessage_sent absent_Cons)
  have same: "fst (sendMessage sock p m w) = fst (sendMessage sock ?q m w)"
    if eq1: "r1 = r1'"
      and eq2: "(\<exists>r rest. r1 = Resolves (r # rest) \<and> exists r) \<longrightarrow> r2 = r2'"
  proof (cases rule: sendMessage_paths [where sock = sock and p = p and w = w and m = m])
    case (query_thrown v t1)
    have a: "onWhatsApp sock ?q (transport w) = (Rejects (Thrown v), s1')"
      using query_thrown q1 q2 eq1 by simp
    show ?thesis
      using sendMessage_query_thrown [OF query_thrown, of m] sendMessage_query_thrown [OF a, of m] by simp
  next
    case (query_nullish t1)
    have a: "onWhatsApp sock ?q (transport w) = (Rejects Nullish, s1')"
      using query_nullish q1 q2 eq1 by simp
    show ?thesis
      using sendMessage_query_nullish [OF query_nullish, of m] sendMessage_query_nullish [OF a, of m] by simp
  next
    case (absent rs t1)
    have a: "onWhatsApp sock ?q (transport w) = (Resolves rs, s1')"
      using absent(1) q1 q2 eq1 by simp
    show ?thesis
      using sendMessage_absent [OF absent, of m] sendMessage_absent [OF a absent(2), of m] by simp
  next
    case (send_thrown rs t1 v t2)
    have r: "r1 = Resolves rs" "t1 = s1"
      using send_thrown(1) q1 by simp_all
    have a: "onWhatsApp sock ?q (transport w) = (Resolves rs, s1')"
      using r q2 eq1 by simp
    have "r2 = r2'"
      using r send_thrown(2) eq2 not_absent_iff [of rs] by auto
    then have b: "sock_sendMessage sock (if CHR ''@'' \<in> set ?q then ?q else ?q @ ''@s.whatsapp.net'') m s1'
        = (Rejects (Thrown v), s2')"
      using send_thrown(3) jp r s1 s2 by simp
    show ?thesis
      using sendMessage_send_thrown [OF send_thrown] sendMessage_send_thrown [OF a send_thrown(2) b] by simp
  next
    case (send_nullish rs t1 t2)
    have r: "r1 = Resolves rs" "t1 = s1"
      using send_nullish(1) q1 by simp_all
    have a: "onWhatsApp sock ?q (transport w) = (Resolves rs, s1')"
      using r q2 eq1 by simp
    have "r2 = r2'"
      using r send_nullish(2) eq2 not_absent_iff [of rs] by auto
    then have b: "sock_sendMessage sock (if CHR ''@'' \<in> set ?q then ?q else ?q @ ''@s.whatsapp.net'') m s1'
        = (Rejects Nullish, s2')"
      using send_nullish(3) jp r s1 s2 by simp
    show ?thesis
      using sendMessage_send_nullish [OF send_nullish] sendMessage_send_nullish [OF a send_nullish(2) b] by simp
  next
    case (sent rs t1 sm t2)
    have r: "r1 = Resolves rs" "t1 = s1"
      using sent(1) q1 by simp_all
    have a: "onWhatsApp sock ?q (transport w) = (Resolves rs, s1')"
      using r q2 eq1 by simp
    have "r2 = r2'"
      using r sent(2) eq2 not_absent_iff [of rs] by auto
    then have b: "sock_sendMessage sock (if CHR ''@'' \<in> set ?q then ?q else ?q @ ''@s.whatsapp.net'') m s1'
        = (Resolves sm, s2')"
      using sent(3) jp r s1 s2 by simp
    show ?thesis
      using sendMessage_sent [OF sent] sendMessage_sent [OF a sent(2) b] by simp
  qed
  show ?thesis
    using left right same q1 q2 s1 s2 by (simp add: Let_def)
qed

lemma forms_example:
  assumes "CHR ''@'' \<notin> set p"
  shows
    "let q = p @ ''@s.whatsapp.net'';
       query = onWhatsApp sock p (transport w);
       query' = onWhatsApp sock q (transport w);
       send = sock_sendMessage sock q m (snd query);
       send' = sock_sendMessage sock q m (snd query');
       result = example_sendMessage sock p m w;
       result' = example_sendMessage sock q m w
   in (snd result = \<lparr>transport = snd query, calls = calls w @ [OnWhatsApp p]\<rparr> \<or>
       snd result = \<lparr>transport = snd send,
                     calls = calls w @ [OnWhatsApp p, SendMessage q m]\<rparr>) \<and>
      (snd result' = \<lparr>transport = snd query', calls = calls w @ [OnWhatsApp q]\<rparr> \<or>
       snd result' = \<lparr>transport = snd send',
                      calls = calls w @ [OnWhatsApp q, SendMessage q m]\<rparr>) \<and>
      (\<forall>r rest. fst query = Resolves (r # rest) \<and> exists r \<longrightarrow>
         snd result = \<lparr>transport = snd send,
                       calls = calls w @ [OnWhatsApp p, SendMessage q m]\<rparr>) \<and>
      (\<forall>r rest. fst query' = Resolves (r # rest) \<and> exists r \<longrightarrow>
         snd result' = \<lparr>transport = snd send',
                        calls = calls w @ [OnWhatsApp q, SendMessage q m]\<rparr>) \<and>
      (fst query = fst query' \<and>
       ((\<exists>r rest. fst query = Resolves (r # rest) \<and> exists r) \<longrightarrow> fst send = fst send')
       \<longrightarrow> fst result = fst result')"
proof -
  let ?q = "p @ ''@s.whatsapp.net''"
  have jp: "(if CHR ''@'' \<in> set p then p else p @ ''@s.whatsapp.net'') = ?q"
    using assms by simp
  have jq: "(if CHR ''@'' \<in> set ?q then ?q else ?q @ ''@s.whatsapp.net'') = ?q"
    by simp
  obtain r1 s1 where q1: "onWhatsApp sock p (transport w) = (r1, s1)"
    by (cases "onWhatsApp sock p (transport w)")
  obtain r1' s1' where q2: "onWhatsApp sock ?q (transport w) = (r1', s1')"
    by (cases "onWhatsApp sock ?q (transport w)")
  obtain r2 s2 where s1: "sock_sendMessage sock ?q m s1 = (r2, s2)"
    by (cases "sock_sendMessage sock ?q m s1")
  obtain r2' s2' where s2: "sock_sendMessage sock ?q m s1' = (r2', s2')"
    by (cases "sock_sendMessage sock ?q m s1'")
  have left:
    "(snd (example_sendMessage sock p m w) = \<lparr>transport = s1, calls = calls w @ [OnWhatsApp p]\<rparr> \<or>
      snd (example_sendMessage sock p m w)
        = \<lparr>transport = s2, calls = calls w @ [OnWhatsApp p, SendMessage ?q m]\<rparr>) \<and>
     (\<forall>r rest. r1 = Resolves (r # rest) \<and> exists r \<longrightarrow>
        snd (example_sendMessage sock p m w)
          = \<lparr>transport = s2, calls = calls w @ [OnWhatsApp p, SendMessage ?q m]\<rparr>)"
    using q1 s1 jp
    by (cases rule: sendMessage_paths [where sock = sock and p = p and w = w and m = m])
      (auto simp add: example_sendMessage_query_thrown example_sendMessage_query_nullish
        example_sendMessage_absent example_sendMessage_send_thrown example_sendMessage_send_nullish
        example_sendMessage_sent absent_Cons)
  have right:
    "(snd (example_sendMessage sock ?q m w) = \<lparr>transport = s1', calls = calls w @ [OnWhatsApp ?q]\<rparr> \<or>
      snd (example_sendMessage sock ?q m w)
        = \<lparr>transport = s2', calls = calls w @ [OnWhatsApp ?q, SendMessage ?q m]\<rparr>) \<and>
     (\<forall>r rest. r1' = Resolves (r # rest) \<and> exists r \<longrightarrow>
        snd (example_sendMessage sock ?q m w)
          = \<lparr>transport = s2', calls = calls w @ [OnWhatsApp ?q, SendMessage ?q m]\<rparr>)"
    using q2 s2 jq
    by (cases rule: sendMessage_paths [where sock = sock and p = ?q and w = w and m = m])
      (auto simp add: example_sendMessage_query_thrown example_sendMessage_query_nullish
        example_sendMessage_absent example_sendMessage_send_thrown example_sendMessage_send_nullish
        example_sendMessage_sent absent_Cons)
  have same: "fst (example_sendMessage sock p m w) = fst (example_sendMessage sock ?q m w)"
    if eq1: "r1 = r1'"
      and eq2: "(\<exists>r rest. r1 = Resolves (r # rest) \<and> exists r) \<longrightarrow> r2 = r2'"
  proof (cases rule: sendMessage_paths [where sock = sock and p = p and w = w and m = m])
    case (query_thrown v t1)
    have a: "onWhatsApp sock ?q (transport w) = (Rejects (Thrown v), s1')"
      using query_thrown q1 q2 eq1 by simp
    show ?thesis
      using example_sendMessage_query_thrown [OF query_thrown, of m] example_sendMessage_query_thrown [OF a, of m] by simp
  next
    case (query_nullish t1)
    have a: "onWhatsApp sock ?q (transport w) = (Rejects Nullish, s1')"
      using query_nullish q1 q2 eq1 by simp
    show ?thesis
      using example_sendMessage_query_nullish [OF query_nullish, of m] example_sendMessage_query_nullish [OF a, of m] by simp
  next
    case (absent rs t1)
    have a: "onWhatsApp sock ?q (transport w) = (Resolves rs, s1')"
      using absent(1) q1 q2 eq1 by simp
    show ?thesis
      using example_sendMessage_absent [OF absent, of m] example_sendMessage_absent [OF a absent(2), of m] by simp
  next
    case (send_thrown rs t1 v t2)
    have r: "r1 = Resolves rs" "t1 = s1"
      using send_thrown(1) q1 by simp_all
    have a: "onWhatsApp sock ?q (transport w) = (Resolves rs, s1')"
      using r q2 eq1 by simp
    have "r2 = r2'"
      using r send_thrown(2) eq2 not_absent_iff [of rs] by auto
    then have b: "sock_sendMessage sock (if CHR ''@'' \<in> set ?q then ?q else ?q @ ''@s.whatsapp.net'') m s1'
        = (Rejects (Thrown v), s2')"
      using send_thrown(3) jp r s1 s2 by simp
    show ?thesis
      using example_sendMessage_send_thrown [OF send_thrown] example_sendMessage_send_thrown [OF a send_thrown(2) b] by simp
  next
    case (send_nullish rs t1 t2)
    have r: "r1 = Resolves rs" "t1 = s1"
      using send_nullish(1) q1 by simp_all
    have a: "onWhatsApp sock ?q (transport w) = (Resolves rs, s1')"
      using r q2 eq1 by simp
    have "r2 = r2'"
      using r send_nullish(2) eq2 not_absent_iff [of rs] by auto
    then have b: "sock_sendMessage sock (if CHR ''@'' \<in> set ?q then ?q else ?q @ ''@s.whatsapp.net'') m s1'
        = (Rejects Nullish, s2')"
      using send_nullish(3) jp r s1 s2 by simp
    show ?thesis
      using example_sendMessage_send_nullish [OF send_nullish] example_sendMessage_send_nullish [OF a send_nullish(2) b] by simp
  next
    case (sent rs t1 sm t2)
    have r: "r1 = Resolves rs" "t1 = s1"
      using sent(1) q1 by simp_all
    have a: "onWhatsApp sock ?q (transport w) = (Resolves rs, s1')"
      using r q2 eq1 by simp
    have "r2 = r2'"
      using r sent(2) eq2 not_absent_iff [of rs] by auto
    then have b: "sock_sendMessage sock (if CHR ''@'' \<in> set ?q then ?q else ?q @ ''@s.whatsapp.net'') m s1'
        = (Resolves sm, s2')"
      using sent(3) jp r s1 s2 by simp
    show ?thesis
      using example_sendMessage_sent [OF sent] example_sendMessage_sent [OF a sent(2) b] by simp
  qed
  show ?thesis
    using left right same q1 q2 s1 s2 by (simp add: Let_def)
qed


text \<open>
  C1, as stated, asks that the deliverability query uses the bare form also when the
  caller passes the fully-qualified form, and that both calls end alike. The code
  passes \<^verbatim>\<open>phoneNumber\<close> to \<^verbatim>\<open>onWhatsApp\<close> as it got it. On a transport that
  finds the bare address only, the call with \<^verbatim>\<open>79123456789@s.whatsapp.net\<close> queries
  that very string, is told that nothing is there and fails without sending, while the
  call with \<^verbatim>\<open>79123456789\<close> succeeds.
\<close>

theorem C1_query_not_bare_counterexample:
  "calls (snd (sendMessage bare_only_sock ''79123456789@s.whatsapp.net'' ''hi'' w0))
     = [OnWhatsApp ''79123456789@s.whatsapp.net''] \<and>
   fst (sendMessage bare_only_sock ''79123456789@s.whatsapp.net'' ''hi'' w0)
     = Inr \<lparr>success = False, messageId = None, timestamp = None,
            error = Some (Text not_registered)\<rparr> \<and>
   calls (snd (sendMessage bare_only_sock ''79123456789'' ''hi'' w0))
     = [OnWhatsApp ''79123456789'', SendMessage ''79123456789@s.whatsapp.net'' ''hi''] \<and>
   fst (sendMessage bare_only_sock ''79123456789'' ''hi'' w0)
     = Inr \<lparr>success = True, messageId = Some ''ABC123'', timestamp = Some 1700000000,
            error = None\<rparr>"
  by (simp add: sendMessage_def sendMessage_try_def call_onWhatsApp_def call_sendMessage_def
      first_result_def absent_def bare_only_sock_def w0_def sent_ABC123_def Let_def)

text \<open>
  C1 as amended: for a bare destination \<open>p\<close> (no @ in it) and its fully-qualified form
  \<open>q\<close>, which is \<open>p\<close> followed by \<^verbatim>\<open>@s.whatsapp.net\<close>, in index.js and in example.js
  alike:
  \<^item> the deliverability query is issued with the destination exactly as it was passed,
    \<open>p\<close> in the first call and \<open>q\<close> in the second: each call leaves the transport in the
    state that \<^verbatim>\<open>onWhatsApp\<close> produced for that argument, or in the state that the
    send produced from it;
  \<^item> the send is issued with \<open>q\<close> in both calls, and it is issued whenever the query of
    the call finds its destination;
  \<^item> both calls return the same outcome whenever the transport gives the same reply to
    the two queries and, when the destination is found, the same reply to the two
    sends.
\<close>

theorem C1_query_as_given_send_qualified:
  assumes "CHR ''@'' \<notin> set p"
  shows
    "(let q = p @ ''@s.whatsapp.net'';
       query = onWhatsApp sock p (transport w);
       query' = onWhatsApp sock q (transport w);
       send = sock_sendMessage sock q m (snd query);
       send' = sock_sendMessage sock q m (snd query');
       result = sendMessage sock p m w;
       result' = sendMessage sock q m w
   in (snd result = \<lparr>transport = snd query, calls = calls w @ [OnWhatsApp p]\<rparr> \<or>
       snd result = \<lparr>transport = snd send,
                     calls = calls w @ [OnWhatsApp p, SendMessage q m]\<rparr>) \<and>
      (snd result' = \<lparr>transport = snd query', calls = calls w @ [OnWhatsApp q]\<rparr> \<or>
       snd result' = \<lparr>transport = snd send',
                      calls = calls w @ [OnWhatsApp q, SendMessage q m]\<rparr>) \<and>
      (\<forall>r rest. fst query = Resolves (r # rest) \<and> exists r \<longrightarrow>
         snd result = \<lparr>transport = snd send,
                       calls = calls w @ [OnWhatsApp p, SendMessage q m]\<rparr>) \<and>
      (\<forall>r rest. fst query' = Resolves (r # rest) \<and> exists r \<longrightarrow>
         snd result' = \<lparr>transport = snd send',
                        calls = calls w @ [OnWhatsApp q, SendMessage q m]\<rparr>) \<and>
      (fst query = fst query' \<and>
       ((\<exists>r rest. fst query = Resolves (r # rest) \<and> exists r) \<longrightarrow> fst send = fst send')
       \<longrightarrow> fst result = fst result')) \<and>
     (let q = p @ ''@s.whatsapp.net'';
       query = onWhatsApp sock p (transport w);
       query' = onWhatsApp sock q (transport w);
       send = sock_sendMessage sock q m (snd query);
       send' = sock_sendMessage sock q m (snd query');
       result = example_sendMessage sock p m w;
       result' = example_sendMessage sock q m w
   in (snd result = \<lparr>transport = snd query, calls = calls w @ [OnWhatsApp p]\<rparr> \<or>
       snd result = \<lparr>transport = snd send,
                     calls = calls w @ [OnWhatsApp p, SendMessage q m]\<rparr>) \<and>
      (snd result' = \<lparr>transport = snd query', calls = calls w @ [OnWhatsApp q]\<rparr> \<or>
       snd result' = \<lparr>transport = snd send',
                      calls = calls w @ [OnWhatsApp q, SendMessage q m]\<rparr>) \<and>
      (\<forall>r rest. fst query = Resolves (r # rest) \<and> exists r \<longrightarrow>
         snd result = \<lparr>transport = snd send,
                       calls = calls w @ [OnWhatsApp p, SendMessage q m]\<rparr>) \<and>
      (\<forall>r rest. fst query' = Resolves (r # rest) \<and> exists r \<longrightarrow>
         snd result' = \<lparr>transport = snd send',
                        calls = calls w @ [OnWhatsApp q, SendMessage q m]\<rparr>) \<and>
      (fst query = fst query' \<and>
       ((\<exists>r rest. fst query = Resolves (r # rest) \<and> exists r) \<longrightarrow> fst send = fst send')
       \<longrightarrow> fst result = fst result'))"
  using forms_index [OF assms] forms_example [OF assms] by (rule conjI)

theorem C1_query_as_given_send_qualified_witness:
  "CHR ''@'' \<notin> set ''79123456789'' \<and>
   fst (onWhatsApp recording_sock ''79123456789'' (transport r0))
     = fst (onWhatsApp recording_sock (''79123456789'' @ ''@s.whatsapp.net'') (transport r0)) \<and>
   fst (sock_sendMessage recording_sock (''79123456789'' @ ''@s.whatsapp.net'') ''hi''
          (snd (onWhatsApp recording_sock ''79123456789'' (transport r0))))
     = fst (sock_sendMessage recording_sock (''79123456789'' @ ''@s.whatsapp.net'') ''hi''
          (snd (onWhatsApp recording_sock (''79123456789'' @ ''@s.whatsapp.net'')
                  (transport r0)))) \<and>
   snd (sendMessage recording_sock ''79123456789'' ''hi'' r0) =
     \<lparr>transport = [''79123456789'', ''79123456789@s.whatsapp.net'', ''hi''],
      calls = [OnWhatsApp ''79123456789'',
               SendMessage ''79123456789@s.whatsapp.net'' ''hi'']\<rparr> \<and>
   snd (sendMessage recording_sock ''79123456789@s.whatsapp.net'' ''hi'' r0) =
     \<lparr>transport = [''79123456789@s.whatsapp.net'', ''79123456789@s.whatsapp.net'', ''hi''],
      calls = [OnWhatsApp ''79123456789@s.whatsapp.net'',
               SendMessage ''79123456789@s.whatsapp.net'' ''hi'']\<rparr> \<and>
   fst (sendMessage recording_sock ''79123456789'' ''hi'' r0)
     = fst (sendMessage recording_sock ''79123456789@s.whatsapp.net'' ''hi'' r0) \<and>
   fst (example_sendMessage recording_sock ''79123456789'' ''hi'' r0)
     = fst (example_sendMessage recording_sock ''79123456789@s.whatsapp.net'' ''hi'' r0)"
proof -
  have h: "CHR ''@'' \<notin> set ''79123456789''" by simp
  show ?thesis
    using h C1_query_as_given_send_qualified [OF h, of recording_sock r0 "''hi''"]
    by (simp add: sendMessage_def sendMessage_try_def example_sendMessage_def
        example_sendMessage_try_def call_onWhatsApp_def call_sendMessage_def
        first_result_def absent_def recording_sock_def r0_def Let_def)
qed

section \<open>C2: a destination that the query does not find\<close>

text \<open>
  C2, as stated, fixes the error text of the failure outcome to "destination not
  registered". The texts of the code are Russian sentences (\<^const>\<open>not_registered\<close> in
  index.js, \<^const>\<open>example_not_registered\<close> in example.js). On a transport that
  reports the number as not existing, neither function returns the outcome of the claim.
\<close>

theorem C2_error_text_counterexample:
  "onWhatsApp unregistered_sock ''71111111111'' (transport w0)
     = (Resolves [\<lparr>exists = False\<rparr>], ()) \<and>
   fst (sendMessage unregistered_sock ''71111111111'' ''hi'' w0)
     \<noteq> Inr \<lparr>success = False, messageId = None, timestamp = None,
             error = Some (Text ''destination not registered'')\<rparr> \<and>
   fst (example_sendMessage unregistered_sock ''71111111111'' ''hi'' w0)
     \<noteq> Inr \<lparr>success = False, messageId = None, timestamp = None,
             error = Some (Text ''destination not registered'')\<rparr>"
  by (simp add: sendMessage_def sendMessage_try_def example_sendMessage_def
      example_sendMessage_try_def call_onWhatsApp_def first_result_def absent_def
      unregistered_sock_def w0_def not_registered_def example_not_registered_def Let_def)

text \<open>
  C2 as amended: when the deliverability query resolves to an empty array, or to an
  array whose first entry does not exist, \<^verbatim>\<open>sendMessage\<close> returns the failure outcome
  with the fixed error text of its file (\<^const>\<open>not_registered\<close> in index.js,
  \<^const>\<open>example_not_registered\<close> in example.js), with no message id and no timestamp,
  and the query is the only call it makes: no send.
\<close>

theorem C2_not_found_fails_without_send:
  assumes "onWhatsApp sock p (transport w) = (Resolves rs, s1)"
    and "rs = [] \<or> \<not> exists (hd rs)"
  shows "sendMessage sock p m w =
           (Inr \<lparr>success = False, messageId = None, timestamp = None,
                  error = Some (Text not_registered)\<rparr>,
            \<lparr>transport = s1, calls = calls w @ [OnWhatsApp p]\<rparr>) \<and>
         example_sendMessage sock p m w =
           (Inr \<lparr>success = False, messageId = None, timestamp = None,
                  error = Some (Text example_not_registered)\<rparr>,
            \<lparr>transport = s1, calls = calls w @ [OnWhatsApp p]\<rparr>)"
proof -
  have "absent (first_result rs)"
    using assms(2) by (cases rs) (simp_all add: first_result_def absent_def)
  with assms(1) show ?thesis
    by (simp add: sendMessage_absent example_sendMessage_absent)
qed

theorem C2_not_found_fails_without_send_witness:
  "sendMessage unregistered_sock ''71111111111'' ''hi'' w0 =
     (Inr \<lparr>success = False, messageId = None, timestamp = None,
            error = Some (Text not_registered)\<rparr>,
      \<lparr>transport = (), calls = [OnWhatsApp ''71111111111'']\<rparr>) \<and>
   example_sendMessage bare_only_sock ''71111111111'' ''hi'' w0 =
     (Inr \<lparr>success = False, messageId = None, timestamp = None,
            error = Some (Text example_not_registered)\<rparr>,
      \<lparr>transport = (), calls = [OnWhatsApp ''71111111111'']\<rparr>)"
proof -
  have a: "onWhatsApp unregistered_sock ''71111111111'' (transport w0)
             = (Resolves [\<lparr>exists = False\<rparr>], ())"
    by (simp add: unregistered_sock_def)
  have b: "[\<lparr>exists = False\<rparr>] = [] \<or> \<not> exists (hd [\<lparr>exists = False\<rparr>])"
    by simp
  have c: "onWhatsApp bare_only_sock ''71111111111'' (transport w0) = (Resolves [], ())"
    by (simp add: bare_only_sock_def)
  have d: "([] :: wa_result list) = [] \<or> \<not> exists (hd ([] :: wa_result list))"
    by simp
  show ?thesis
    using C2_not_found_fails_without_send [OF a b, of "''hi''"]
      C2_not_found_fails_without_send [OF c d, of "''hi''"]
    by (simp add: w0_def)
qed

section \<open>C3: the shape of the outcome\<close>





section \<open>C4: errors become outcomes\<close>

text \<open>
  C4 asks that \<^verbatim>\<open>sendMessage\<close> never throws. The \<^verbatim>\<open>catch\<close> clause of index.js
  reads \<^verbatim>\<open>error.message\<close> without looking at the value it caught. When the
  deliverability query rejects with \<^verbatim>\<open>null\<close>, that read raises a \<^verbatim>\<open>TypeError\<close>
  inside the clause, and the function throws it instead of returning an outcome; the
  query is the only call made.
\<close>

theorem C4_null_rejection_is_thrown:
  "onWhatsApp null_rejecting_sock ''79123456789'' (transport w0) = (Rejects Nullish, ()) \<and>
   sendMessage_try null_rejecting_sock ''79123456789'' ''hi'' w0 =
     (Inl Nullish, \<lparr>transport = (), calls = [OnWhatsApp ''79123456789'']\<rparr>) \<and>
   sendMessage null_rejecting_sock ''79123456789'' ''hi'' w0 =
     (Inl TypeError, \<lparr>transport = (), calls = [OnWhatsApp ''79123456789'']\<rparr>) \<and>
   (\<forall>outcome. fst (sendMessage null_rejecting_sock ''79123456789'' ''hi'' w0) \<noteq> Inr outcome)"
  by (simp add: sendMessage_def sendMessage_try_def call_onWhatsApp_def
      null_rejecting_sock_def w0_def Let_def)

section \<open>C5: the reconnect policy\<close>

lemma qr_effects_only: "set (qr_effects update) \<subseteq> range QrGenerate"
  by (auto simp add: qr_effects_def split: option.split)

text \<open>
  C5: for a close event, in index.js and in example.js alike: when the status code of
  the disconnect reason is not \<open>loggedOut\<close> (an undefined status code included), the
  observer ends with the delay of 3000 ms followed by one call of the start function,
  and nothing before them is a delay or a start; when the status code is \<open>loggedOut\<close>,
  the observer makes no delay and no call of the start function. What may come before
  is the rendering of a QR code carried by the same event.
\<close>

theorem C5_reconnect_once_after_delay_unless_logged_out:
  assumes "connection update = Some ''close''"
  shows "(disconnect_statusCode update \<noteq> Some loggedOut \<longrightarrow>
            (\<exists>before. set before \<subseteq> range QrGenerate \<and>
               on_connection_update loggedOut update
                 = before @ [Delay 3000, StartWhatsAppBot] \<and>
               example_on_connection_update loggedOut update
                 = before @ [Delay 3000, ConnectWhatsApp])) \<and>
         (disconnect_statusCode update = Some loggedOut \<longrightarrow>
            set (on_connection_update loggedOut update) \<subseteq> range QrGenerate \<and>
            set (example_on_connection_update loggedOut update) \<subseteq> range QrGenerate)"
  using assms qr_effects_only [of update]
  by (simp add: on_connection_update_def example_on_connection_update_def shouldReconnect_def)

theorem C5_reconnect_once_after_delay_unless_logged_out_witness:
  "connection (closed_with 408) = Some ''close'' \<and>
   disconnect_statusCode (closed_with 408) \<noteq> Some 401 \<and>
   on_connection_update 401 (closed_with 408) = [Delay 3000, StartWhatsAppBot] \<and>
   example_on_connection_update 401 (closed_with 408) = [Delay 3000, ConnectWhatsApp] \<and>
   connection (closed_with 401) = Some ''close'' \<and>
   disconnect_statusCode (closed_with 401) = Some 401 \<and>
   on_connection_update 401 (closed_with 401) = [] \<and>
   example_on_connection_update 401 (closed_with 401) = []"
proof -
  have a: "connection (closed_with 408) = Some ''close''"
    and b: "connection (closed_with 401) = Some ''close''"
    by (simp_all add: closed_with_def)
  show ?thesis
    using C5_reconnect_once_after_delay_unless_logged_out [OF a, of 401]
      C5_reconnect_once_after_delay_unless_logged_out [OF b, of 401]
    by (simp add: closed_with_def disconnect_statusCode_def on_connection_update_def
        example_on_connection_update_def shouldReconnect_def qr_effects_def)
qed

section \<open>C6: one query, at most one send\<close>

text \<open>
  C6: an invocation of \<^verbatim>\<open>sendMessage\<close> (index.js) issues the deliverability query
  against the transport exactly once, for the destination as given, and the send at
  most once and after the query. The transport is left either in the state that the
  one query produced from the initial state, or in the state that the one send
  produced from that one; the record of the calls holds the query alone in the first
  case and the query followed by the send in the second. Nothing is repeated.
\<close>

theorem C6_one_query_at_most_one_send:
  "let jid = (if CHR ''@'' \<in> set p then p else p @ ''@s.whatsapp.net'');
       query = onWhatsApp sock p (transport w);
       send = sock_sendMessage sock jid m (snd query);
       final = snd (sendMessage sock p m w)
   in final = \<lparr>transport = snd query, calls = calls w @ [OnWhatsApp p]\<rparr> \<or>
      final = \<lparr>transport = snd send,
                calls = calls w @ [OnWhatsApp p, SendMessage jid m]\<rparr>"
  unfolding Let_def
  by (cases rule: sendMessage_paths [where sock = sock and p = p and w = w and m = m])
    (simp_all add: sendMessage_query_thrown sendMessage_query_nullish sendMessage_absent
      sendMessage_send_thrown sendMessage_send_nullish sendMessage_sent)

theorem C6_one_query_at_most_one_send_witness:
  "snd (sendMessage recording_sock ''79123456789'' ''hi'' r0) =
     \<lparr>transport = [''79123456789'', ''79123456789@s.whatsapp.net'', ''hi''],
      calls = [OnWhatsApp ''79123456789'',
               SendMessage ''79123456789@s.whatsapp.net'' ''hi'']\<rparr> \<and>
   snd (sendMessage unregistered_sock ''71111111111'' ''hi'' w0) =
     \<lparr>transport = (), calls = [OnWhatsApp ''71111111111'']\<rparr>"
  using C6_one_query_at_most_one_send [of "''79123456789''" recording_sock r0 "''hi''"]
    C6_one_query_at_most_one_send [of "''71111111111''" unregistered_sock w0 "''hi''"]
  by (simp add: sendMessage_def sendMessage_try_def call_onWhatsApp_def call_sendMessage_def
      first_result_def absent_def recording_sock_def unregistered_sock_def r0_def w0_def
      Let_def)

section \<open>C7: the address of the send\<close>

text \<open>
  C7: the address that \<^verbatim>\<open>sendMessage\<close> (index.js) sends to is the destination
  unchanged when the destination contains @, and the destination with
  \<^verbatim>\<open>@s.whatsapp.net\<close> appended otherwise. The send call uses this address: a run
  makes no call of \<^verbatim>\<open>sock.sendMessage\<close> but the one with this address and the given
  text, on the state that the query left; when the query finds the destination, that
  call is made, the transport is left in the state it produced, and the outcome is
  built from its reply.
\<close>

theorem C7_send_to_normalized_address:
  "let jid = (if CHR ''@'' \<in> set p then p else p @ ''@s.whatsapp.net'');
       query = onWhatsApp sock p (transport w);
       send = sock_sendMessage sock jid m (snd query);
       result = sendMessage sock p m w
   in (snd result = \<lparr>transport = snd query, calls = calls w @ [OnWhatsApp p]\<rparr> \<or>
       snd result = \<lparr>transport = snd send,
                     calls = calls w @ [OnWhatsApp p, SendMessage jid m]\<rparr>) \<and>
      (\<forall>r rest. fst query = Resolves (r # rest) \<and> exists r \<longrightarrow>
         snd result = \<lparr>transport = snd send,
                       calls = calls w @ [OnWhatsApp p, SendMessage jid m]\<rparr> \<and>
         (\<forall>sm. fst send = Resolves sm \<longrightarrow>
            fst result = Inr \<lparr>success = True, messageId = Some (id_key (key sm)),
                               timestamp = Some (messageTimestamp sm), error = None\<rparr>) \<and>
         (\<forall>v. fst send = Rejects (Thrown v) \<longrightarrow>
            fst result = Inr \<lparr>success = False, messageId = None, timestamp = None,
                               error = Some v\<rparr>))"
proof (cases rule: sendMessage_paths [where sock = sock and p = p and w = w and m = m])
  case (query_thrown v s1)
  then show ?thesis by (simp add: Let_def sendMessage_query_thrown)
next
  case (query_nullish s1)
  then show ?thesis by (simp add: Let_def sendMessage_query_nullish)
next
  case (absent rs s1)
  then have "\<And>r rest. rs = r # rest \<Longrightarrow> \<not> exists r"
    using not_absent_iff [of rs] by auto
  with absent show ?thesis by (auto simp add: Let_def sendMessage_absent)
next
  case (send_thrown rs s1 v s2)
  then show ?thesis by (simp add: Let_def sendMessage_send_thrown)
next
  case (send_nullish rs s1 s2)
  then show ?thesis by (simp add: Let_def sendMessage_send_nullish)
next
  case (sent rs s1 sm s2)
  then show ?thesis by (simp add: Let_def sendMessage_sent)
qed

theorem C7_send_to_normalized_address_witness:
  "fst (onWhatsApp recording_sock ''79123456789'' (transport r0))
     = Resolves [\<lparr>exists = True\<rparr>] \<and>
   CHR ''@'' \<notin> set ''79123456789'' \<and>
   sendMessage recording_sock ''79123456789'' ''hi'' r0 =
     (Inr \<lparr>success = True, messageId = Some ''ABC123'', timestamp = Some 1700000000,
            error = None\<rparr>,
      \<lparr>transport = [''79123456789'', ''79123456789@s.whatsapp.net'', ''hi''],
       calls = [OnWhatsApp ''79123456789'',
                SendMessage ''79123456789@s.whatsapp.net'' ''hi'']\<rparr>) \<and>
   CHR ''@'' \<in> set ''1203630@g.us'' \<and>
   sendMessage recording_sock ''1203630@g.us'' ''hi'' r0 =
     (Inr \<lparr>success = True, messageId = Some ''ABC123'', timestamp = Some 1700000000,
            error = None\<rparr>,
      \<lparr>transport = [''1203630@g.us'', ''1203630@g.us'', ''hi''],
       calls = [OnWhatsApp ''1203630@g.us'', SendMessage ''1203630@g.us'' ''hi'']\<rparr>) \<and>
   fst (sendMessage timing_out_sock ''79123456789'' ''hi'' w0) =
     Inr \<lparr>success = False, messageId = None, timestamp = None,
           error = Some (Text ''Timed Out'')\<rparr>"
  using C7_send_to_normalized_address [of "''79123456789''" recording_sock r0 "''hi''"]
    C7_send_to_normalized_address [of "''1203630@g.us''" recording_sock r0 "''hi''"]
    C7_send_to_normalized_address [of "''79123456789''" timing_out_sock w0 "''hi''"]
  by (simp add: sendMessage_def sendMessage_try_def call_onWhatsApp_def call_sendMessage_def
      first_result_def absent_def recording_sock_def timing_out_sock_def r0_def w0_def
      sent_ABC123_def Let_def)

section \<open>C8 and C9: the inbound batch\<close>

lemma handle_messages_append:
  "handle_messages (xs @ ys) = handle_messages xs @ handle_messages ys"
  by (induction xs) simp_all

lemma handle_messages_filter:
  "handle_messages messages =
     map (\<lambda>message. Received (senderName message) (remoteJid (key message))
                       (messageText message))
       (filter (\<lambda>message. \<not> fromMe (key message)) messages)"
  by (induction messages) simp_all

text \<open>
  C8: in a live batch, a message flagged as sent by the account itself is skipped
  whatever it contains: the batch is handled exactly as the batch without that message.
  The other messages are still handled: what the observer does is one record per
  message that is not self-sent, in the order of the batch.
\<close>

theorem C8_self_sent_messages_skipped:
  "(fromMe (key own) \<longrightarrow>
      on_messages_upsert (before @ own # after) ''notify''
        = on_messages_upsert (before @ after) ''notify'') \<and>
   on_messages_upsert messages ''notify'' =
     map (\<lambda>message. Received (senderName message) (remoteJid (key message))
                       (messageText message))
       (filter (\<lambda>message. \<not> fromMe (key message)) messages)"
  by (simp add: on_messages_upsert_def handle_messages_append handle_messages_filter)

theorem C8_self_sent_messages_skipped_witness:
  "fromMe (key own_hello) \<and>
   on_messages_upsert ([peer_hello] @ own_hello # [peer_hello]) ''notify''
     = [Received ''Ann'' (Some ''79123456789@s.whatsapp.net'') ''hello'',
        Received ''Ann'' (Some ''79123456789@s.whatsapp.net'') ''hello''] \<and>
   on_messages_upsert [own_hello] ''notify'' = []"
  using C8_self_sent_messages_skipped [of own_hello "[peer_hello]" "[peer_hello]" "[own_hello]"]
  by (simp add: on_messages_upsert_def own_hello_def peer_hello_def senderName_def
      messageText_def or_default_def or_else_def)

text \<open>
  C9: a batch whose type is not \<^verbatim>\<open>notify\<close> is skipped as a whole: nothing is
  handled, whatever the messages are.
\<close>

theorem C9_only_live_batches_handled:
  assumes "type \<noteq> ''notify''"
  shows "on_messages_upsert messages type = []"
  using assms by (simp add: on_messages_upsert_def)

theorem C9_only_live_batches_handled_witness:
  "''append'' \<noteq> ''notify'' \<and> on_messages_upsert [peer_hello, own_hello] ''append'' = []"
proof -
  have h: "''append'' \<noteq> ''notify''" by simp
  show ?thesis
    using h C9_only_live_batches_handled [OF h, of "[peer_hello, own_hello]"] by simp
qed

section \<open>C10: a deliverability query that raises\<close>




end
